theory Spec2Isabelle
  imports Main "HOL-Library.AList"
begin

section \<open>The profile router of openmemory (api/app/routers/profile.py)\<close>

text \<open>
  A shallow embedding of the request validators and the six handlers of the profile
  router. Python values are modelled as follows.
  \<^item> \<open>str\<close> is \<open>string\<close>; a character stands for a code point below 256, where the
    regular expression class \<open>\d\<close> matches exactly the ten characters \<open>0\<close> to \<open>9\<close>.
  \<^item> \<open>int\<close> is \<open>int\<close>, \<open>Optional[t]\<close> is \<open>t option\<close>, a \<open>dict\<close> is an association
    list with distinct keys.
  \<^item> A raised exception is the \<open>Inl\<close> of a sum; the handlers return the session they
    leave behind next to their result.
\<close>

subsection \<open>Values, errors and responses\<close>

datatype json = JNull | JBool bool | JInt int | JStr string

type_synonym response = "(string \<times> json) list"

text \<open>
  \<open>HTTPException status detail\<close> is fastapi's exception, \<open>ValueError\<close> the one the
  validators raise, and \<open>CommitException\<close> the exception a failing \<open>db.commit()\<close>
  raises when no handler catches it.
\<close>

datatype error = HTTPException int string | ValueError string | CommitException

record ProfileResponse =
  user_id :: string
  email :: "string option"
  name :: "string option"
  subscription_tier :: string
  phone_number :: "string option"
  phone_verified :: bool
  sms_enabled :: bool

subsection \<open>The user row\<close>

text \<open>
  Modelled from the spec: the enum \<open>SubscriptionTier\<close> of app.models, which is not among
  the sources. The router names its members \<open>PRO\<close> and \<open>ENTERPRISE\<close>; the spec names
  the third \<open>FREE\<close>.
\<close>

datatype SubscriptionTier = FREE | PRO | ENTERPRISE

text \<open>
  Modelled from the spec: the class \<open>User\<close> of app.models, which is not among the
  sources. The fields are the attributes the router reads and writes; a column the
  router tests for \<open>None\<close> or for truth is optional. The attributes \<open>id\<close> and
  \<open>metadata_\<close> are written \<open>id'\<close> and \<open>metadata'\<close>, and a timestamp is a number.
\<close>

record User =
  id' :: int
  user_id :: string
  email :: "string option"
  name :: "string option"
  subscription_tier :: SubscriptionTier
  phone_number :: "string option"
  phone_verified :: "bool option"
  phone_verification_attempts :: "int option"
  phone_verified_at :: "int option"
  sms_enabled :: "bool option"
  metadata' :: "(string \<times> json) list option"

subsection \<open>The database session\<close>

text \<open>
  The session \<open>db\<close> of a request: \<open>user\<close> is the object \<open>get_or_create_user\<close>
  returned, which the handler assigns to; \<open>rows\<close> are the committed rows of the user
  table; \<open>calls\<close> lists the calls of \<open>db.commit()\<close> and \<open>db.rollback()\<close> the handler
  made, oldest first.
\<close>

datatype db_call = Commit | Rollback

record Session =
  user :: User
  rows :: "User list"
  calls :: "db_call list"

definition upsert :: "User \<Rightarrow> User list \<Rightarrow> User list" where
  "upsert u rs =
     (if list_ex (\<lambda>r. id' r = id' u) rs
      then map (\<lambda>r. if id' r = id' u then u else r) rs
      else rs @ [u])"

text \<open>The committed row of the session's user: what the next request reads.\<close>

definition stored_user :: "Session \<Rightarrow> User option" where
  "stored_user db = find (\<lambda>r. id' r = id' (user db)) (rows db)"

subsection \<open>Collaborators\<close>

text \<open>
  The modules the router imports are not among the sources; the handlers take them as
  parameters. \<open>check_pro_features\<close> yields the exception the entitlement checker raises,
  if any. The verification collaborators receive the user and the session and may
  change both. \<open>commit_raises\<close> says whether \<open>db.commit()\<close> raises on a session, and
  \<open>enum_value\<close> is the \<open>.value\<close> of a tier. \<open>metadata_tracked\<close> says whether the
  column \<open>metadata_\<close> is declared in app.models so that the session sees a change made
  inside its dictionary (a mutation-tracked column); a plain JSON column is not.
\<close>

record sms_config =
  is_configured :: bool
  SMS_VERIFICATION_TIMEOUT :: int
  SMS_RATE_LIMIT_PRO :: int
  SMS_RATE_LIMIT_ENTERPRISE :: int

record env =
  config :: sms_config
  check_pro_features :: "User \<Rightarrow> string \<Rightarrow> error option"
  generate_verification_code :: string
  store_verification_code :: "Session \<Rightarrow> string \<Rightarrow> bool \<times> Session"
  send_verification_code :: "string \<Rightarrow> string \<Rightarrow> bool"
  verify_code :: "Session \<Rightarrow> string \<Rightarrow> bool \<times> Session"
  check_rate_limit :: "Session \<Rightarrow> bool \<times> int"
  commit_raises :: "Session \<Rightarrow> bool"
  enum_value :: "SubscriptionTier \<Rightarrow> string"
  metadata_tracked :: bool

text \<open>
  \<open>db.commit()\<close>: when it returns, the user object is the committed row; when it
  raises (\<open>Inl\<close>), the rows are as before. \<open>db.rollback()\<close> discards the pending
  assignments: the object is the committed row again.
\<close>

definition db_commit :: "env \<Rightarrow> Session \<Rightarrow> Session + Session" where
  "db_commit e db =
     (if commit_raises e db then Inl (db\<lparr>calls := calls db @ [Commit]\<rparr>)
      else Inr (db\<lparr>rows := upsert (user db) (rows db), calls := calls db @ [Commit]\<rparr>))"

definition db_rollback :: "Session \<Rightarrow> Session" where
  "db_rollback db =
     db\<lparr>user := (case stored_user db of Some r \<Rightarrow> r | None \<Rightarrow> user db),
        calls := calls db @ [Rollback]\<rparr>"

subsection \<open>Request validators\<close>

definition is_digit :: "char \<Rightarrow> bool" where
  "is_digit c = (c \<in> set ''0123456789'')"

definition startswith :: "string \<Rightarrow> string \<Rightarrow> bool" where
  "startswith s p = (take (length p) s = p)"

text \<open>
  \<open>PhoneNumberRequest.validate_phone_number\<close>. \<open>re.sub(r'[^\d+]', '', v)\<close> keeps the
  digits and every \<open>+\<close>.
\<close>

definition validate_phone_number :: "string \<Rightarrow> error + string" where
  "validate_phone_number v =
     (let cleaned = filter (\<lambda>c. is_digit c \<or> c = CHR ''+'') v;
          cleaned = (if startswith cleaned ''+1'' then drop 2 cleaned
                     else if startswith cleaned ''1'' then drop 1 cleaned
                     else cleaned)
      in if length cleaned \<noteq> 10
         then Inl (ValueError ''Phone number must be a valid 10-digit US number'')
         else Inr (''+1'' @ cleaned))"

text \<open>
  \<open>re.match(r'^\d{6}$', v)\<close>: six digits from the start of the string, then \<open>$\<close>, which
  Python matches at the end of the string and also just before a newline that is the
  last character.
\<close>

definition re_match_six_digits :: "string \<Rightarrow> bool" where
  "re_match_six_digits v =
     (length (take 6 v) = 6 \<and> list_all is_digit (take 6 v) \<and>
      (drop 6 v = [] \<or> drop 6 v = [CHR 0x0A]))"

definition validate_code :: "string \<Rightarrow> error + string" where
  "validate_code v =
     (if \<not> re_match_six_digits v
      then Inl (ValueError ''Verification code must be 6 digits'')
      else Inr v)"

subsection \<open>Handlers\<close>

text \<open>Python's truth of an optional string, and \<open>x or 0\<close> on an optional integer.\<close>

definition truthy_str :: "string option \<Rightarrow> bool" where
  "truthy_str s = (case s of None \<Rightarrow> False | Some t \<Rightarrow> t \<noteq> [])"

definition or_zero :: "int option \<Rightarrow> int" where
  "or_zero n = (case n of None \<Rightarrow> 0 | Some k \<Rightarrow> k)"

definition get_profile :: "env \<Rightarrow> User \<Rightarrow> ProfileResponse" where
  "get_profile e u =
     \<lparr> ProfileResponse.user_id = user_id u,
       ProfileResponse.email = email u,
       ProfileResponse.name = name u,
       ProfileResponse.subscription_tier = enum_value e (subscription_tier u),
       ProfileResponse.phone_number = phone_number u,
       ProfileResponse.phone_verified = (phone_verified u = Some True),
       ProfileResponse.sms_enabled = (case sms_enabled u of None \<Rightarrow> True | Some b \<Rightarrow> b) \<rparr>"

text \<open>
  The query of \<open>add_phone_number\<close>: the first row with the requested number and another
  primary key.
\<close>

definition existing_user :: "Session \<Rightarrow> string \<Rightarrow> User option" where
  "existing_user db p =
     find (\<lambda>r. phone_number r = Some p \<and> id' r \<noteq> id' (user db)) (rows db)"

definition add_phone_number :: "env \<Rightarrow> Session \<Rightarrow> string \<Rightarrow> (error + response) \<times> Session" where
  "add_phone_number e db request_phone =
     (case check_pro_features e (user db) ''SMS integration'' of
        Some exn \<Rightarrow> (Inl exn, db)
      | None \<Rightarrow>
        if \<not> is_configured (config e)
        then (Inl (HTTPException 503 ''SMS service is not available at this time''), db)
        else if (case phone_verification_attempts (user db) of
                   None \<Rightarrow> False | Some n \<Rightarrow> n \<noteq> 0 \<and> n \<ge> 5)
        then (Inl (HTTPException 429
                ''Too many verification attempts. Please try again later.''), db)
        else (case existing_user db request_phone of
          Some other \<Rightarrow>
            (Inl (HTTPException 409
               ''This phone number is already registered to another account''), db)
        | None \<Rightarrow>
            (let verification_code = generate_verification_code e;
                 (stored, db1) = store_verification_code e db verification_code
             in if \<not> stored
                then (Inl (HTTPException 500 ''Failed to store verification code''), db1)
                else if \<not> send_verification_code e request_phone verification_code
                then (Inl (HTTPException 500 ''Failed to send verification code''), db1)
                else
                  (let u = user db1;
                       db2 = db1\<lparr>user := u\<lparr>phone_number := Some request_phone,
                                            phone_verified := Some False,
                                            phone_verification_attempts :=
                                              Some (or_zero (phone_verification_attempts u) + 1)\<rparr>\<rparr>
                   in case db_commit e db2 of
                        Inl db3 \<Rightarrow> (Inl (HTTPException 500 ''Database error''), db_rollback db3)
                      | Inr db3 \<Rightarrow>
                          (Inr [(''message'', JStr ''Verification code sent to your phone''),
                                (''phone_number'', JStr request_phone),
                                (''expires_in_minutes'',
                                   JInt (SMS_VERIFICATION_TIMEOUT (config e) div 60))],
                           db3)))))"

definition verify_phone_number :: "env \<Rightarrow> Session \<Rightarrow> string \<Rightarrow> (error + response) \<times> Session" where
  "verify_phone_number e db verification_code =
     (case check_pro_features e (user db) ''SMS integration'' of
        Some exn \<Rightarrow> (Inl exn, db)
      | None \<Rightarrow>
        if \<not> truthy_str (phone_number (user db))
        then (Inl (HTTPException 400
                ''No phone number to verify. Please add a phone number first.''), db)
        else
          (let (accepted, db1) = verify_code e db verification_code
           in if accepted
              then
                (let db2 = db1\<lparr>user := (user db1)\<lparr>phone_verification_attempts := Some 0,
                                                     sms_enabled := Some True\<rparr>\<rparr>
                 in case db_commit e db2 of
                      Inl db3 \<Rightarrow> (Inl CommitException, db3)
                    | Inr db3 \<Rightarrow>
                        (Inr [(''message'', JStr ''Phone number verified successfully''),
                              (''phone_number'',
                                 (case phone_number (user db3) of
                                    None \<Rightarrow> JNull | Some p \<Rightarrow> JStr p)),
                              (''verified'', JBool True)],
                         db3))
              else (Inl (HTTPException 400 ''Invalid or expired verification code''), db1)))"

text \<open>
  \<open>remove_phone_number\<close>. The five phone fields are assigned, and the session writes
  assigned attributes at the commit. The metadata entry is deleted inside the dictionary
  (\<open>del user.metadata_['sms_verification']\<close>, when the mapping is neither \<open>None\<close> nor
  empty and holds the key); the handler neither assigns \<open>metadata_\<close> nor flags it as
  modified. The session writes such a change only for a mutation-tracked column; for any
  other column the commit leaves it out and the object, which the commit expires, reads
  the stored dictionary again, so the entry is kept.
\<close>

definition clear_pending :: "(string \<times> json) list option \<Rightarrow> (string \<times> json) list option" where
  "clear_pending md =
     (case md of
        None \<Rightarrow> None
      | Some m \<Rightarrow>
          if m \<noteq> [] \<and> ''sms_verification'' \<in> fst ` set m
          then Some (AList.delete ''sms_verification'' m)
          else Some m)"

definition remove_phone_number :: "env \<Rightarrow> Session \<Rightarrow> (error + response) \<times> Session" where
  "remove_phone_number e db =
     (let u = user db;
          db1 = db\<lparr>user := u\<lparr>phone_number := None,
                              phone_verified := Some False,
                              phone_verification_attempts := Some 0,
                              phone_verified_at := None,
                              sms_enabled := Some False,
                              metadata' := (if metadata_tracked e
                                            then clear_pending (metadata' u)
                                            else metadata' u)\<rparr>\<rparr>
      in case db_commit e db1 of
           Inl db2 \<Rightarrow> (Inl (HTTPException 500 ''Database error''), db_rollback db2)
         | Inr db2 \<Rightarrow> (Inr [(''message'', JStr ''Phone number removed successfully'')], db2))"

definition update_sms_settings :: "env \<Rightarrow> Session \<Rightarrow> bool \<Rightarrow> (error + response) \<times> Session" where
  "update_sms_settings e db request_sms_enabled =
     (if phone_verified (user db) \<noteq> Some True
      then (Inl (HTTPException 400
              ''Phone number must be verified before changing SMS settings''), db)
      else
        (let db1 = db\<lparr>user := (user db)\<lparr>sms_enabled := Some request_sms_enabled\<rparr>\<rparr>
         in case db_commit e db1 of
              Inl db2 \<Rightarrow> (Inl (HTTPException 500 ''Database error''), db_rollback db2)
            | Inr db2 \<Rightarrow>
                (Inr [(''message'', JStr ''SMS settings updated successfully''),
                      (''sms_enabled'',
                         (case sms_enabled (user db2) of
                            None \<Rightarrow> JNull | Some b \<Rightarrow> JBool b))],
                 db2)))"

definition get_sms_usage :: "env \<Rightarrow> Session \<Rightarrow> error + response" where
  "get_sms_usage e db =
     (case check_pro_features e (user db) ''SMS integration'' of
        Some exn \<Rightarrow> Inl exn
      | None \<Rightarrow>
        (let (allowed, remaining) = check_rate_limit e db;
             u = user db;
             daily_limit =
               (if subscription_tier u = ENTERPRISE then SMS_RATE_LIMIT_ENTERPRISE (config e)
                else if subscription_tier u = PRO then SMS_RATE_LIMIT_PRO (config e)
                else 0);
             used_today = (if allowed then daily_limit - remaining else daily_limit)
         in Inr [(''daily_limit'', JInt daily_limit),
                 (''used_today'', JInt used_today),
                 (''remaining_today'', JInt remaining),
                 (''subscription_tier'', JStr (enum_value e (subscription_tier u))),
                 (''phone_verified'', JBool (phone_verified u = Some True)),
                 (''sms_enabled'',
                    JBool (case sms_enabled u of None \<Rightarrow> True | Some b \<Rightarrow> b))]))"

subsection \<open>Contracts of the collaborators\<close>


text \<open>
  Modelled from the spec: what \<open>SMSRateLimit.check_rate_limit\<close> of app.utils.sms, which
  is not among the sources, reports. The spec calls it today's remaining allowance under
  the daily cap of the user's tier (the Enterprise limit, the Pro limit, or zero for
  Free): the remainder lies between 0 and that cap.
\<close>

definition daily_cap :: "sms_config \<Rightarrow> SubscriptionTier \<Rightarrow> int" where
  "daily_cap c t =
     (case t of FREE \<Rightarrow> 0 | PRO \<Rightarrow> SMS_RATE_LIMIT_PRO c
      | ENTERPRISE \<Rightarrow> SMS_RATE_LIMIT_ENTERPRISE c)"


subsection \<open>Example sessions\<close>

text \<open>
  Two users, and collaborators for them: \<open>open_env\<close> has an entitlement checker that
  raises for nobody, a verification collaborator that marks the phone verified when the
  code is right, and a mutation-tracked metadata column; \<open>strict_env\<close> has a checker that
  raises for the free tier; in \<open>failing_env\<close> every commit raises; in \<open>exhausted_env\<close>
  the rate limiter allows nothing more; in \<open>untracked_env\<close> the metadata column is a plain
  JSON column.
\<close>

definition pro_user :: User where
  "pro_user =
     \<lparr> id' = 1, user_id = ''u-1'', email = Some ''ada@example.com'', name = Some ''Ada'',
       subscription_tier = PRO, phone_number = Some ''+15551234567'',
       phone_verified = Some False, phone_verification_attempts = Some 1,
       phone_verified_at = None, sms_enabled = None,
       metadata' = Some [(''sms_verification'', JStr ''123456''), (''theme'', JStr ''dark'')] \<rparr>"

definition free_user :: User where
  "free_user =
     \<lparr> id' = 2, user_id = ''u-2'', email = Some ''bob@example.com'', name = None,
       subscription_tier = FREE, phone_number = None,
       phone_verified = None, phone_verification_attempts = None,
       phone_verified_at = None, sms_enabled = None, metadata' = None \<rparr>"

definition pro_session :: Session where
  "pro_session = \<lparr> user = pro_user, rows = [pro_user], calls = [] \<rparr>"

definition free_session :: Session where
  "free_session = \<lparr> user = free_user, rows = [pro_user, free_user], calls = [] \<rparr>"

definition open_env :: env where
  "open_env =
     \<lparr> config = \<lparr> is_configured = True, SMS_VERIFICATION_TIMEOUT = 600,
                  SMS_RATE_LIMIT_PRO = 50, SMS_RATE_LIMIT_ENTERPRISE = 200 \<rparr>,
       check_pro_features = (\<lambda>u feature. None),
       generate_verification_code = ''123456'',
       store_verification_code = (\<lambda>db code. (True, db)),
       send_verification_code = (\<lambda>phone code. True),
       verify_code =
         (\<lambda>db code. if code = ''123456''
            then (True, db\<lparr>user := (user db)\<lparr>phone_verified := Some True,
                                              phone_verified_at := Some 1762300800\<rparr>\<rparr>)
            else (False, db)),
       check_rate_limit = (\<lambda>db. (True, 5)),
       commit_raises = (\<lambda>db. False),
       enum_value =
         (\<lambda>t. case t of FREE \<Rightarrow> ''free'' | PRO \<Rightarrow> ''pro'' | ENTERPRISE \<Rightarrow> ''enterprise''),
       metadata_tracked = True \<rparr>"

definition strict_env :: env where
  "strict_env = open_env\<lparr>check_pro_features :=
     (\<lambda>u feature. if subscription_tier u = FREE
        then Some (HTTPException 403 (feature @ '' requires a Pro subscription''))
        else None)\<rparr>"

definition failing_env :: env where
  "failing_env = open_env\<lparr>commit_raises := (\<lambda>db. True)\<rparr>"

definition exhausted_env :: env where
  "exhausted_env = open_env\<lparr>check_rate_limit := (\<lambda>db. (False, 0))\<rparr>"

definition untracked_env :: env where
  "untracked_env = open_env\<lparr>metadata_tracked := False\<rparr>"

lemmas example_defs = open_env_def strict_env_def failing_env_def exhausted_env_def
  untracked_env_def pro_session_def pro_user_def free_session_def free_user_def

section \<open>The session\<close>

lemma find_snoc:
  "find P (xs @ [x]) =
     (case find P xs of Some y \<Rightarrow> Some y | None \<Rightarrow> if P x then Some x else None)"
  by (induction xs) simp_all

lemma find_upsert: "find (\<lambda>r. id' r = id' u) (upsert u rs) = Some u"
proof (cases "list_ex (\<lambda>r. id' r = id' u) rs")
  case True
  then show ?thesis
    by (induction rs) (auto simp: upsert_def)
next
  case False
  then have "find (\<lambda>r. id' r = id' u) rs = None"
    by (simp add: find_None_iff list_ex_iff)
  with False show ?thesis
    by (simp add: upsert_def find_snoc)
qed

text \<open>A commit that returns makes the user object the committed row.\<close>

lemma stored_user_commit:
  "db_commit e db = Inr db' \<Longrightarrow>
     stored_user db' = Some (user db) \<and> user db' = user db \<and> calls db' = calls db @ [Commit]"
  by (auto simp: db_commit_def stored_user_def find_upsert split: if_splits)

section \<open>The validators\<close>

text \<open>
  C8. The verification-code validator is to accept exactly the strings of six digits.
  It accepts six digits followed by a newline as well: \<open>$\<close> matches before a final
  newline.
\<close>

theorem validate_code_trailing_newline:
  "validate_code (''123456'' @ [CHR 0x0A]) = Inr (''123456'' @ [CHR 0x0A])"
  by (simp add: validate_code_def re_match_six_digits_def is_digit_def)

text \<open>What the validator accepts, in full: the newline is the only stray case.\<close>

lemma validate_code_iff:
  "validate_code v = Inr v \<longleftrightarrow>
     (length v = 6 \<and> list_all is_digit v) \<or>
     (\<exists>d. v = d @ [CHR 0x0A] \<and> length d = 6 \<and> list_all is_digit d)"
proof
  assume "validate_code v = Inr v"
  then have m: "re_match_six_digits v"
    by (simp add: validate_code_def split: if_splits)
  then have six: "length (take 6 v) = 6" and dig: "list_all is_digit (take 6 v)"
    and rest: "drop 6 v = [] \<or> drop 6 v = [CHR 0x0A]"
    by (simp_all add: re_match_six_digits_def)
  from rest show "(length v = 6 \<and> list_all is_digit v) \<or>
     (\<exists>d. v = d @ [CHR 0x0A] \<and> length d = 6 \<and> list_all is_digit d)"
  proof
    assume "drop 6 v = []"
    then have "take 6 v = v" by simp
    with six dig show ?thesis by simp
  next
    assume "drop 6 v = [CHR 0x0A]"
    then have "v = take 6 v @ [CHR 0x0A]"
      by (metis append_take_drop_id)
    with six dig show ?thesis by blast
  qed
next
  assume "(length v = 6 \<and> list_all is_digit v) \<or>
     (\<exists>d. v = d @ [CHR 0x0A] \<and> length d = 6 \<and> list_all is_digit d)"
  then have "re_match_six_digits v"
    by (auto simp: re_match_six_digits_def)
  then show "validate_code v = Inr v"
    by (simp add: validate_code_def)
qed

lemma validate_code_returns_input: "validate_code v = Inr w \<Longrightarrow> w = v"
  by (simp add: validate_code_def split: if_splits)

text \<open>
  C3. The phone-number validator is to accept an input exactly when it has ten
  significant digits. Every \<open>+\<close> survives the cleaning and is counted: ten \<open>+\<close> signs
  are accepted with no digit at all, and ten digits with a \<open>+\<close> between them are
  rejected.
\<close>

theorem validate_phone_number_counts_plus:
  "validate_phone_number ''++++++++++'' = Inr ''+1++++++++++''
   \<and> validate_phone_number ''555+123+4567'' =
       Inl (ValueError ''Phone number must be a valid 10-digit US number'')"
  by (simp add: validate_phone_number_def startswith_def is_digit_def)

text \<open>
  On an input without \<open>+\<close> the validator does what C3 says: it accepts exactly when ten
  digits remain after one leading \<open>1\<close> is dropped, and returns \<open>+1\<close> and those digits.
\<close>

lemma validate_phone_number_plus_free:
  assumes "CHR ''+'' \<notin> set v"
  shows "validate_phone_number v =
     (let ds = filter is_digit v;
          significant = (if startswith ds ''1'' then drop 1 ds else ds)
      in if length significant = 10 then Inr (''+1'' @ significant)
         else Inl (ValueError ''Phone number must be a valid 10-digit US number''))"
proof -
  have f: "filter (\<lambda>c. is_digit c \<or> c = CHR ''+'') v = filter is_digit v"
    using assms by (intro filter_cong) auto
  have n: "\<not> startswith (filter is_digit v) ''+1''"
  proof
    assume a: "startswith (filter is_digit v) ''+1''"
    have "set (take (length ''+1'') (filter is_digit v)) \<subseteq> set (filter is_digit v)"
      by (rule set_take_subset)
    moreover have "take (length ''+1'') (filter is_digit v) = ''+1''"
      using a by (simp only: startswith_def)
    ultimately have "set ''+1'' \<subseteq> set (filter is_digit v)"
      by (simp only:)
    then have "CHR ''+'' \<in> set (filter is_digit v)"
      by simp
    then show False by (simp add: is_digit_def)
  qed
  show ?thesis
    unfolding validate_phone_number_def f Let_def using n by simp
qed

lemma validate_phone_number_formatted:
  "validate_phone_number ''+1 (555) 123-4567'' = Inr ''+15551234567''
   \<and> validate_phone_number ''1-555-123-4567'' = Inr ''+15551234567''
   \<and> validate_phone_number ''555.123.4567'' = Inr ''+15551234567''"
  by (simp add: validate_phone_number_def startswith_def is_digit_def)

section \<open>Commit failures\<close>

text \<open>
  C1. Every handler that commits is to roll back before it surfaces an internal error.
  \<open>verify_phone_number\<close> calls \<open>db.commit()\<close> outside any \<open>try\<close>: when the commit
  raises, the exception leaves the handler as it is, and \<open>db.rollback()\<close> is not called.
\<close>

theorem verify_phone_number_commit_not_rolled_back:
  "fst (verify_phone_number failing_env pro_session ''123456'') = Inl CommitException
   \<and> calls (snd (verify_phone_number failing_env pro_session ''123456'')) = [Commit]"
  by (simp add: verify_phone_number_def failing_env_def open_env_def pro_session_def pro_user_def
      truthy_str_def db_commit_def)

text \<open>The other three handlers that commit do roll back, and raise the 500 error.\<close>

lemma remove_phone_number_rolls_back:
  assumes "\<forall>s. commit_raises e s"
  shows "fst (remove_phone_number e db) = Inl (HTTPException 500 ''Database error'')
     \<and> calls (snd (remove_phone_number e db)) = calls db @ [Commit, Rollback]
     \<and> rows (snd (remove_phone_number e db)) = rows db"
  using assms by (simp add: remove_phone_number_def db_commit_def db_rollback_def Let_def)

lemma update_sms_settings_rolls_back:
  assumes "\<forall>s. commit_raises e s" and "phone_verified (user db) = Some True"
  shows "fst (update_sms_settings e db b) = Inl (HTTPException 500 ''Database error'')
     \<and> calls (snd (update_sms_settings e db b)) = calls db @ [Commit, Rollback]
     \<and> rows (snd (update_sms_settings e db b)) = rows db"
  using assms by (simp add: update_sms_settings_def db_commit_def db_rollback_def Let_def)

lemma add_phone_number_rolls_back:
  assumes "\<forall>s. commit_raises e s"
    and "check_pro_features e (user db) ''SMS integration'' = None"
    and "is_configured (config e)"
    and "phone_verification_attempts (user db) = None"
    and "existing_user db p = None"
    and "store_verification_code e db (generate_verification_code e) = (True, db1)"
    and "send_verification_code e p (generate_verification_code e)"
  shows "fst (add_phone_number e db p) = Inl (HTTPException 500 ''Database error'')
     \<and> calls (snd (add_phone_number e db p)) = calls db1 @ [Commit, Rollback]
     \<and> rows (snd (add_phone_number e db p)) = rows db1"
  using assms by (simp add: add_phone_number_def db_commit_def db_rollback_def Let_def)

section \<open>The handlers\<close>



text \<open>
  The handler itself leaves the verified flag alone: after it, the flag is the one the
  collaborator left, whatever that is.
\<close>

lemma verify_phone_number_keeps_verified_flag:
  assumes "check_pro_features e (user db) ''SMS integration'' = None"
    and "truthy_str (phone_number (user db))"
    and "verify_code e db code = (True, db1)"
  shows "phone_verified (user (snd (verify_phone_number e db code))) = phone_verified (user db1)"
  using assms
  by (simp add: verify_phone_number_def db_commit_def Let_def)

text \<open>
  C4. The checks of \<open>add_phone_number\<close> run in the order entitlement, configuration,
  attempt counter, number taken; the first that fails decides the error and the session
  is left as it was. The rate-limit case does not look at the rows, so it holds whether
  or not the number is taken.
\<close>

theorem add_phone_number_check_order:
  "(check_pro_features e (user db) ''SMS integration'' = Some exn \<longrightarrow>
      add_phone_number e db p = (Inl exn, db))
   \<and> (check_pro_features e (user db) ''SMS integration'' = None
      \<and> \<not> is_configured (config e) \<longrightarrow>
      add_phone_number e db p =
        (Inl (HTTPException 503 ''SMS service is not available at this time''), db))
   \<and> (check_pro_features e (user db) ''SMS integration'' = None \<and> is_configured (config e)
      \<and> phone_verification_attempts (user db) = Some n \<and> 5 \<le> n \<longrightarrow>
      add_phone_number e db p =
        (Inl (HTTPException 429 ''Too many verification attempts. Please try again later.''),
         db))
   \<and> (check_pro_features e (user db) ''SMS integration'' = None \<and> is_configured (config e)
      \<and> (phone_verification_attempts (user db) = None
           \<or> (\<exists>k. phone_verification_attempts (user db) = Some k \<and> k < 5))
      \<and> r \<in> set (rows db) \<and> phone_number r = Some p \<and> id' r \<noteq> id' (user db) \<longrightarrow>
      add_phone_number e db p =
        (Inl (HTTPException 409 ''This phone number is already registered to another account''),
         db))"
proof (intro conjI impI)
  assume "check_pro_features e (user db) ''SMS integration'' = Some exn"
  then show "add_phone_number e db p = (Inl exn, db)"
    by (simp add: add_phone_number_def)
next
  assume "check_pro_features e (user db) ''SMS integration'' = None
      \<and> \<not> is_configured (config e)"
  then show "add_phone_number e db p =
        (Inl (HTTPException 503 ''SMS service is not available at this time''), db)"
    by (simp add: add_phone_number_def)
next
  assume "check_pro_features e (user db) ''SMS integration'' = None \<and> is_configured (config e)
      \<and> phone_verification_attempts (user db) = Some n \<and> 5 \<le> n"
  then show "add_phone_number e db p =
        (Inl (HTTPException 429 ''Too many verification attempts. Please try again later.''),
         db)"
    by (auto simp: add_phone_number_def)
next
  assume a: "check_pro_features e (user db) ''SMS integration'' = None \<and> is_configured (config e)
      \<and> (phone_verification_attempts (user db) = None
           \<or> (\<exists>k. phone_verification_attempts (user db) = Some k \<and> k < 5))
      \<and> r \<in> set (rows db) \<and> phone_number r = Some p \<and> id' r \<noteq> id' (user db)"
  then have "existing_user db p \<noteq> None"
    by (auto simp: existing_user_def find_None_iff)
  then obtain other where "existing_user db p = Some other" by blast
  with a show "add_phone_number e db p =
        (Inl (HTTPException 409 ''This phone number is already registered to another account''),
         db)"
    by (auto simp: add_phone_number_def)
qed

theorem add_phone_number_check_order_witness:
  "add_phone_number strict_env free_session ''+15550001111'' =
     (Inl (HTTPException 403 ''SMS integration requires a Pro subscription''), free_session)
   \<and> add_phone_number (open_env\<lparr>config := (config open_env)\<lparr>is_configured := False\<rparr>\<rparr>)
        pro_session ''+15550001111'' =
     (Inl (HTTPException 503 ''SMS service is not available at this time''), pro_session)
   \<and> add_phone_number open_env
        (pro_session\<lparr>user := pro_user\<lparr>phone_verification_attempts := Some 5\<rparr>\<rparr>)
        ''+15550001111'' =
     (Inl (HTTPException 429 ''Too many verification attempts. Please try again later.''),
      pro_session\<lparr>user := pro_user\<lparr>phone_verification_attempts := Some 5\<rparr>\<rparr>)
   \<and> add_phone_number open_env free_session ''+15551234567'' =
     (Inl (HTTPException 409 ''This phone number is already registered to another account''),
      free_session)"
  using
    add_phone_number_check_order[where e = strict_env and db = free_session
      and p = "''+15550001111''"
      and exn = "HTTPException 403 ''SMS integration requires a Pro subscription''"]
    add_phone_number_check_order[
      where e = "open_env\<lparr>config := (config open_env)\<lparr>is_configured := False\<rparr>\<rparr>"
      and db = pro_session and p = "''+15550001111''"]
    add_phone_number_check_order[where e = open_env
      and db = "pro_session\<lparr>user := pro_user\<lparr>phone_verification_attempts := Some 5\<rparr>\<rparr>"
      and p = "''+15550001111''" and n = 5]
    add_phone_number_check_order[where e = open_env and db = free_session
      and p = "''+15551234567''" and r = pro_user]
  by (simp add: example_defs)




text \<open>
  With a plain JSON column the five fields are cleared all the same, and the metadata,
  entry included, is as it was.
\<close>

lemma remove_phone_number_untracked_metadata:
  assumes "\<not> metadata_tracked e"
    and "u' = (user db)\<lparr>phone_number := None,
                          phone_verified := Some False,
                          phone_verification_attempts := Some 0,
                          phone_verified_at := None,
                          sms_enabled := Some False\<rparr>"
    and "\<not> commit_raises e (db\<lparr>user := u'\<rparr>)"
  shows "\<exists>db'. remove_phone_number e db =
               (Inr [(''message'', JStr ''Phone number removed successfully'')], db')
             \<and> user db' = u'
             \<and> stored_user db' = Some u'
             \<and> metadata' (user db') = metadata' (user db)"
proof -
  let ?db1 = "db\<lparr>user := u'\<rparr>"
  obtain db2 where c: "db_commit e ?db1 = Inr db2"
    using assms(3) by (simp add: db_commit_def)
  from stored_user_commit[OF c] have s: "stored_user db2 = Some u'" "user db2 = u'"
    by simp_all
  have "remove_phone_number e db =
           (Inr [(''message'', JStr ''Phone number removed successfully'')], db2)"
    using c assms(1,2) by (simp add: remove_phone_number_def Let_def)
  with s assms(2) show ?thesis by simp
qed

lemma remove_phone_number_untracked_example:
  "metadata' (user (snd (remove_phone_number untracked_env pro_session))) =
     Some [(''sms_verification'', JStr ''123456''), (''theme'', JStr ''dark'')]"
  by (simp add: remove_phone_number_def db_commit_def Let_def example_defs)

text \<open>
  C7. For a user whose verified flag is not true, \<open>update_sms_settings\<close> raises the 400
  error and leaves the session as it was. For a verified user it assigns the requested
  value and commits; when the commit returns, the value is in the user and in the
  committed row, and \<open>get_profile\<close> of that row reports it.
\<close>

theorem update_sms_settings_toggles:
  "(phone_verified (user db) \<noteq> Some True \<longrightarrow>
      update_sms_settings e db b =
        (Inl (HTTPException 400 ''Phone number must be verified before changing SMS settings''),
         db))
   \<and> (phone_verified (user db) = Some True
      \<and> \<not> commit_raises e (db\<lparr>user := (user db)\<lparr>sms_enabled := Some b\<rparr>\<rparr>) \<longrightarrow>
      (\<exists>db' r. update_sms_settings e db b =
           (Inr [(''message'', JStr ''SMS settings updated successfully''),
                 (''sms_enabled'', JBool b)], db')
         \<and> user db' = (user db)\<lparr>sms_enabled := Some b\<rparr>
         \<and> stored_user db' = Some r
         \<and> ProfileResponse.sms_enabled (get_profile e r) = b))"
proof (intro conjI impI)
  assume "phone_verified (user db) \<noteq> Some True"
  then show "update_sms_settings e db b =
        (Inl (HTTPException 400 ''Phone number must be verified before changing SMS settings''),
         db)"
    by (simp add: update_sms_settings_def)
next
  let ?u = "(user db)\<lparr>sms_enabled := Some b\<rparr>"
  let ?db1 = "db\<lparr>user := ?u\<rparr>"
  assume a: "phone_verified (user db) = Some True \<and> \<not> commit_raises e ?db1"
  then obtain db2 where c: "db_commit e ?db1 = Inr db2"
    by (simp add: db_commit_def)
  from stored_user_commit[OF c] have s: "stored_user db2 = Some ?u" "user db2 = ?u"
    by simp_all
  have "update_sms_settings e db b =
           (Inr [(''message'', JStr ''SMS settings updated successfully''),
                 (''sms_enabled'', JBool b)], db2)"
    using a c s(2) by (simp add: update_sms_settings_def Let_def)
  with s show "\<exists>db' r. update_sms_settings e db b =
           (Inr [(''message'', JStr ''SMS settings updated successfully''),
                 (''sms_enabled'', JBool b)], db')
         \<and> user db' = (user db)\<lparr>sms_enabled := Some b\<rparr>
         \<and> stored_user db' = Some r
         \<and> ProfileResponse.sms_enabled (get_profile e r) = b"
    by (simp add: get_profile_def)
qed

theorem update_sms_settings_toggles_witness:
  "update_sms_settings open_env pro_session True =
     (Inl (HTTPException 400 ''Phone number must be verified before changing SMS settings''),
      pro_session)
   \<and> (\<exists>db' r. update_sms_settings open_env
               (pro_session\<lparr>user := pro_user\<lparr>phone_verified := Some True\<rparr>\<rparr>) False =
           (Inr [(''message'', JStr ''SMS settings updated successfully''),
                 (''sms_enabled'', JBool False)], db')
         \<and> sms_enabled (user db') = Some False
         \<and> stored_user db' = Some r
         \<and> ProfileResponse.sms_enabled (get_profile open_env r) = False)"
  using
    update_sms_settings_toggles[where e = open_env and db = pro_session and b = True]
    update_sms_settings_toggles[where e = open_env
      and db = "pro_session\<lparr>user := pro_user\<lparr>phone_verified := Some True\<rparr>\<rparr>" and b = False]
  by (auto simp: example_defs)

text \<open>
  C9. \<open>remove_phone_number\<close> and \<open>update_sms_settings\<close> never call the entitlement
  checker: their outcome is the same under every checker, and the only errors they raise
  are the 500 of a failed commit and the 400 of an unverified phone. The other three
  handlers raise what the checker raises, before anything else.
\<close>

theorem remove_and_update_skip_entitlement:
  "remove_phone_number (e\<lparr>check_pro_features := chk\<rparr>) db = remove_phone_number e db
   \<and> update_sms_settings (e\<lparr>check_pro_features := chk\<rparr>) db b = update_sms_settings e db b
   \<and> ((\<exists>r. fst (remove_phone_number e db) = Inr r)
        \<or> fst (remove_phone_number e db) = Inl (HTTPException 500 ''Database error''))
   \<and> ((\<exists>r. fst (update_sms_settings e db b) = Inr r)
        \<or> fst (update_sms_settings e db b) =
             Inl (HTTPException 400 ''Phone number must be verified before changing SMS settings'')
        \<or> fst (update_sms_settings e db b) = Inl (HTTPException 500 ''Database error''))
   \<and> (check_pro_features e (user db) ''SMS integration'' = Some exn \<longrightarrow>
        fst (add_phone_number e db p) = Inl exn
        \<and> fst (verify_phone_number e db code) = Inl exn
        \<and> get_sms_usage e db = Inl exn)"
proof (intro conjI impI)
  show "remove_phone_number (e\<lparr>check_pro_features := chk\<rparr>) db = remove_phone_number e db"
    by (simp add: remove_phone_number_def db_commit_def)
  show "update_sms_settings (e\<lparr>check_pro_features := chk\<rparr>) db b = update_sms_settings e db b"
    by (simp add: update_sms_settings_def db_commit_def)
  show "(\<exists>r. fst (remove_phone_number e db) = Inr r)
        \<or> fst (remove_phone_number e db) = Inl (HTTPException 500 ''Database error'')"
    by (simp add: remove_phone_number_def db_commit_def Let_def)
  show "(\<exists>r. fst (update_sms_settings e db b) = Inr r)
        \<or> fst (update_sms_settings e db b) =
             Inl (HTTPException 400 ''Phone number must be verified before changing SMS settings'')
        \<or> fst (update_sms_settings e db b) = Inl (HTTPException 500 ''Database error'')"
    by (simp add: update_sms_settings_def db_commit_def Let_def)
next
  assume a: "check_pro_features e (user db) ''SMS integration'' = Some exn"
  then show "fst (add_phone_number e db p) = Inl exn"
    by (simp add: add_phone_number_def)
  from a show "fst (verify_phone_number e db code) = Inl exn"
    by (simp add: verify_phone_number_def)
  from a show "get_sms_usage e db = Inl exn"
    by (simp add: get_sms_usage_def)
qed

theorem remove_and_update_skip_entitlement_witness:
  "fst (add_phone_number strict_env free_session ''+15550001111'') =
     Inl (HTTPException 403 ''SMS integration requires a Pro subscription'')
   \<and> fst (verify_phone_number strict_env free_session ''123456'') =
     Inl (HTTPException 403 ''SMS integration requires a Pro subscription'')
   \<and> get_sms_usage strict_env free_session =
     Inl (HTTPException 403 ''SMS integration requires a Pro subscription'')
   \<and> remove_phone_number strict_env free_session = remove_phone_number open_env free_session
   \<and> update_sms_settings strict_env free_session True =
       update_sms_settings open_env free_session True"
  using remove_and_update_skip_entitlement[where e = strict_env and db = free_session
      and exn = "HTTPException 403 ''SMS integration requires a Pro subscription''"
      and p = "''+15550001111''" and code = "''123456''"]
    remove_and_update_skip_entitlement[where e = open_env and db = free_session and b = True
      and chk = "check_pro_features strict_env"]
  by (simp add: strict_env_def free_session_def free_user_def)

text \<open>A free user removes a phone number under the strict checker.\<close>

lemma remove_phone_number_free_user:
  "fst (remove_phone_number strict_env free_session) =
     Inr [(''message'', JStr ''Phone number removed successfully'')]"
  by (simp add: remove_phone_number_def db_commit_def Let_def example_defs)

text \<open>
  C10. In \<open>get_sms_usage\<close>, a user who passes the entitlement check with a tier other
  than Pro and Enterprise gets the daily limit 0, and when the rate limiter allows, the
  usage \<open>0 - remaining\<close>, which is negative for a positive remainder.
\<close>

theorem get_sms_usage_other_tier_negative:
  assumes "check_pro_features e (user db) ''SMS integration'' = None"
    and "subscription_tier (user db) \<noteq> PRO" and "subscription_tier (user db) \<noteq> ENTERPRISE"
    and "check_rate_limit e db = (allowed, remaining)"
  shows "\<exists>r. get_sms_usage e db = Inr r
     \<and> map_of r ''daily_limit'' = Some (JInt 0)
     \<and> (allowed \<longrightarrow> map_of r ''used_today'' = Some (JInt (0 - remaining)))
     \<and> (allowed \<and> 0 < remaining \<longrightarrow>
          (\<exists>n. map_of r ''used_today'' = Some (JInt n) \<and> n < 0))"
  using assms by (simp add: get_sms_usage_def Let_def)

theorem get_sms_usage_other_tier_negative_witness:
  "\<exists>r. get_sms_usage open_env free_session = Inr r
     \<and> map_of r ''daily_limit'' = Some (JInt 0)
     \<and> map_of r ''used_today'' = Some (JInt (- 5))"
  using get_sms_usage_other_tier_negative[where e = open_env and db = free_session
      and allowed = True and remaining = 5]
  by (auto simp: example_defs)



text \<open>
  Without the contract the handler passes the limiter's remainder through for every
  tier; only the daily limit comes from the tier.
\<close>

lemma get_sms_usage_remaining_passed_through:
  assumes "check_pro_features e (user db) ''SMS integration'' = None"
    and "check_rate_limit e db = (allowed, remaining)"
  shows "\<exists>r. get_sms_usage e db = Inr r
     \<and> map_of r ''remaining_today'' = Some (JInt remaining)
     \<and> map_of r ''daily_limit'' = Some (JInt (daily_cap (config e) (subscription_tier (user db))))"
  using assms
  by (cases "subscription_tier (user db)")
     (simp_all add: get_sms_usage_def daily_cap_def Let_def)

end
